theory Spec2Isabelle
  imports Main "HOL-Library.Product_Lexorder" "HOL-Library.List_Lexorder" "HOL-Library.Char_ord"
begin

section \<open>Role-based access control (middleware/rbac)\<close>

text \<open>
  A user document as the routes read it. An ObjectId is its hexadecimal string, as
  \<^verbatim>\<open>_id.toString()\<close> gives it. The field \<open>role\<close> is optional: \<open>None\<close> is a user
  object without the property.
\<close>

record user =
  user_id :: string
  name :: string
  email :: string
  role :: "string option"

text \<open>
  What a thrown JavaScript exception is in the model. \<open>hasPermission\<close> has no
  \<^verbatim>\<open>try\<close> of its own, so an exception leaves it.
\<close>

datatype js_error = TypeError

text \<open>
  The result of reading \<^verbatim>\<open>exports.rolePermissions[key]\<close>. The table is an object literal,
  so a key that is not one of its own three properties is looked up on
  \<^verbatim>\<open>Object.prototype\<close>: there the read gives a function (or, for \<^verbatim>\<open>__proto__\<close>, the
  prototype object), none of which has a property \<^verbatim>\<open>includes\<close>. Every other key reads
  \<^verbatim>\<open>undefined\<close>.
\<close>

datatype property = Permissions "string list" | Inherited | Undefined

definition objectPrototypeKeys :: "string list" where
  "objectPrototypeKeys =
     [''constructor'', ''__defineGetter__'', ''__defineSetter__'', ''hasOwnProperty'',
      ''__lookupGetter__'', ''__lookupSetter__'', ''isPrototypeOf'',
      ''propertyIsEnumerable'', ''toString'', ''valueOf'', ''__proto__'',
      ''toLocaleString'']"

definition adminPermissions :: "string list" where
  "adminPermissions =
     [''tasks:create'', ''tasks:read'', ''tasks:update'', ''tasks:delete'',
      ''tasks:assign'', ''tasks:read-all'', ''tasks:update-all'', ''tasks:delete-all'',
      ''users:read'', ''users:update'', ''users:create'', ''users:delete'',
      ''users:manage-roles'', ''reports:view'', ''reports:export'', ''system:settings'']"

definition managerPermissions :: "string list" where
  "managerPermissions =
     [''tasks:create'', ''tasks:read'', ''tasks:update'', ''tasks:delete'',
      ''tasks:assign'', ''tasks:read-all'', ''tasks:update-all'', ''tasks:delete-all'',
      ''users:read'', ''reports:view'', ''reports:export'']"

definition userPermissions :: "string list" where
  "userPermissions =
     [''tasks:create'', ''tasks:read'', ''tasks:update'', ''tasks:delete'',
      ''tasks:assign'']"

text \<open>The static table itself: its own properties only.\<close>

definition rolePermissions :: "string \<rightharpoonup> string list" where
  "rolePermissions key =
     (if key = ''admin'' then Some adminPermissions
      else if key = ''manager'' then Some managerPermissions
      else if key = ''user'' then Some userPermissions
      else None)"

text \<open>The property read \<^verbatim>\<open>exports.rolePermissions[user.role]\<close>.\<close>

definition rolePermissions_get :: "string \<Rightarrow> property" where
  "rolePermissions_get key =
     (case rolePermissions key of
        Some ps \<Rightarrow> Permissions ps
      | None \<Rightarrow> if key \<in> set objectPrototypeKeys then Inherited else Undefined)"

text \<open>
  \<^verbatim>\<open>
  const hasPermission = (user, permission) => {
      if (!user || !user.role) return false;
      const permissions = exports.rolePermissions[user.role];
      return (permissions === null || permissions === void 0
                ? void 0 : permissions.includes(permission)) || false;
  };
  \<close>
  \<^verbatim>\<open>!user.role\<close> holds for a missing role and for the empty string. A value read from
  the prototype is neither \<^verbatim>\<open>null\<close> nor \<^verbatim>\<open>undefined\<close>, so \<^verbatim>\<open>includes\<close> is called on
  it, and calling the absent method throws.
\<close>

definition hasPermission :: "user option \<Rightarrow> string \<Rightarrow> js_error + bool" where
  "hasPermission u permission =
     (case u of
        None \<Rightarrow> Inr False
      | Some usr \<Rightarrow>
          (case role usr of
             None \<Rightarrow> Inr False
           | Some r \<Rightarrow>
               if r = [] then Inr False
               else (case rolePermissions_get r of
                       Permissions ps \<Rightarrow> Inr (permission \<in> set ps)
                     | Inherited \<Rightarrow> Inl TypeError
                     | Undefined \<Rightarrow> Inr False)))"

section \<open>Documents and the database\<close>

text \<open>
  A task document, with the fields the routes read and write. Dates are instants in
  milliseconds. \<open>recurringType\<close> and the fields after it are optional in the document.
  The reference fields \<open>assignedTo\<close>, \<open>createdBy\<close> and \<open>parentTaskId\<close> hold the
  ObjectId of the document they point to.
\<close>

record task =
  task_id :: string
  title :: string
  description :: string
  dueDate :: int
  priority :: string
  status :: string
  assignedTo :: string
  createdBy :: string
  isRecurring :: bool
  recurringType :: "string option"
  recurringInterval :: "int option"
  recurringDays :: "int list option"
  recurringDate :: "int option"
  recurringEndDate :: "int option"
  parentTaskId :: "string option"

record notification =
  n_user :: string
  n_message :: string
  n_type :: string
  n_taskId :: "string option"
  n_read :: bool

text \<open>The three collections. Every handler takes the database and returns it updated.\<close>

record db =
  tasks :: "task list"
  users :: "user list"
  notifications :: "notification list"

text \<open>What \<^verbatim>\<open>res.status(c).json(...)\<close> sends: the status code and the JSON body.\<close>

record stats =
  statusCounts :: "(string \<times> nat) list"
  priorityCounts :: "(string \<times> nat) list"
  dueTodayCount :: nat
  dueThisWeekCount :: nat
  overdueCount :: nat

datatype body =
    Message string
  | Errors "string list"
  | TaskList "task list"
  | TaskResult string "task option"
  | UserResult string user
  | StatsResult stats
  | Failure string

datatype response = Response (statusCode: nat) (payload: body)

text \<open>
  \<^verbatim>\<open>mongoose.Types.ObjectId.isValid\<close> on a string, which is also what casting a string to
  an ObjectId accepts: 24 hexadecimal digits, or any 12 characters.
\<close>

definition isHexDigit :: "char \<Rightarrow> bool" where
  "isHexDigit c = (c \<in> set ''0123456789abcdefABCDEF'')"

definition ObjectId_isValid :: "string \<Rightarrow> bool" where
  "ObjectId_isValid s = ((length s = 24 \<and> list_all isHexDigit s) \<or> length s = 12)"

text \<open>
  The ObjectId a valid string is cast to, as \<^verbatim>\<open>toString()\<close> prints it and as the
  reference fields of the documents hold it: the 24 hexadecimal digits in lower case,
  or the twelve characters as bytes, two digits each.
\<close>

definition lowerHex :: "char \<Rightarrow> char" where
  "lowerHex c =
     (if c = CHR ''A'' then CHR ''a'' else if c = CHR ''B'' then CHR ''b''
      else if c = CHR ''C'' then CHR ''c'' else if c = CHR ''D'' then CHR ''d''
      else if c = CHR ''E'' then CHR ''e'' else if c = CHR ''F'' then CHR ''f'' else c)"

definition hexOfByte :: "char \<Rightarrow> string" where
  "hexOfByte c =
     (let n = (of_char c :: nat)
      in [''0123456789abcdef'' ! (n div 16), ''0123456789abcdef'' ! (n mod 16)])"

definition ObjectId_toString :: "string \<Rightarrow> string" where
  "ObjectId_toString s = (if length s = 24 then map lowerHex s else concat (map hexOfByte s))"

text \<open>\<^verbatim>\<open>Model.findById\<close>: the first document with that id.\<close>

definition Task_findById :: "string \<Rightarrow> task list \<Rightarrow> task option" where
  "Task_findById i ts = find (\<lambda>t. task_id t = i) ts"

definition User_findById :: "string \<Rightarrow> user list \<Rightarrow> user option" where
  "User_findById i us = find (\<lambda>u. user_id u = i) us"

text \<open>
  \<^verbatim>\<open>createNotification\<close> (index.ts) stores the notification; handing it to the
  user's socket changes no collection. It catches its own errors.
\<close>

definition createNotification :: "string \<Rightarrow> string \<Rightarrow> string \<Rightarrow> string option \<Rightarrow> db \<Rightarrow> db" where
  "createNotification userId message type taskId d =
     d\<lparr>notifications := notifications d @
        [\<lparr>n_user = userId, n_message = message, n_type = type, n_taskId = taskId,
          n_read = False\<rparr>]\<rparr>"

text \<open>A JavaScript string is truthy when it is present and not empty.\<close>

definition truthy :: "string option \<Rightarrow> bool" where
  "truthy s = (case s of None \<Rightarrow> False | Some v \<Rightarrow> v \<noteq> [])"

text \<open>
  \<^verbatim>\<open>checkPermission(permission)\<close> (middleware/auth): \<open>None\<close> lets the request through
  to the next handler. An exception thrown by \<open>hasPermission\<close> reaches the error handler
  of index.ts, which answers 500 with the exception's message.
\<close>

definition checkPermission :: "string \<Rightarrow> user option \<Rightarrow> response option" where
  "checkPermission permission reqUser =
     (case reqUser of
        None \<Rightarrow> Some (Response 401 (Message ''Authentication required''))
      | Some u \<Rightarrow>
          (case hasPermission (Some u) permission of
             Inl e \<Rightarrow> Some (Response 500 (Failure ''permissions.includes is not a function''))
           | Inr ok \<Rightarrow>
               if ok then None
               else Some (Response 403
                      (Message ''You do not have permission to perform this action''))))"

section \<open>Task queries\<close>

text \<open>
  The filter objects the task routes build. A field that is \<open>None\<close> is absent from the
  filter. \<open>q_or\<close> is the \<^verbatim>\<open>$or\<close> property: an assignment to it replaces the clause list
  that was there.
\<close>

datatype clause =
    AssignedToIs string
  | CreatedByIs string
  | TitleRegex string
  | DescriptionRegex string

record query =
  q_status :: "string option"
  q_status_ne :: "string option"
  q_priority :: "string option"
  q_isRecurring :: "bool option"
  q_recurringType :: "string option"
  q_or :: "clause list option"
  q_assignedTo :: "string option"
  q_createdBy :: "string option"
  q_dueDate_gte :: "int option"
  q_dueDate_lt :: "int option"

definition emptyQuery :: query where
  "emptyQuery =
     \<lparr>q_status = None, q_status_ne = None, q_priority = None, q_isRecurring = None,
      q_recurringType = None, q_or = None, q_assignedTo = None, q_createdBy = None,
      q_dueDate_gte = None, q_dueDate_lt = None\<rparr>"

text \<open>
  The database's matching. A string the request gives for a reference field is cast to
  an ObjectId before it is compared. \<open>rx pattern\<close> is the case-insensitive regular expression
  match of MongoDB for \<^verbatim>\<open>{$regex: pattern, $options: 'i'}\<close>, taken as a parameter; it is
  \<open>None\<close> for a pattern the database rejects.
\<close>

type_synonym regex = "string \<Rightarrow> (string \<Rightarrow> bool) option"

fun clauseMatches :: "regex \<Rightarrow> clause \<Rightarrow> task \<Rightarrow> bool" where
  "clauseMatches rx (AssignedToIs i) t = (assignedTo t = i)"
| "clauseMatches rx (CreatedByIs i) t = (createdBy t = i)"
| "clauseMatches rx (TitleRegex p) t = (case rx p of None \<Rightarrow> False | Some m \<Rightarrow> m (title t))"
| "clauseMatches rx (DescriptionRegex p) t =
     (case rx p of None \<Rightarrow> False | Some m \<Rightarrow> m (description t))"

definition holds :: "'a option \<Rightarrow> ('a \<Rightarrow> bool) \<Rightarrow> bool" where
  "holds c P = (case c of None \<Rightarrow> True | Some v \<Rightarrow> P v)"

definition matches :: "regex \<Rightarrow> query \<Rightarrow> task \<Rightarrow> bool" where
  "matches rx q t =
     (holds (q_status q) (\<lambda>v. status t = v) \<and>
      holds (q_status_ne q) (\<lambda>v. status t \<noteq> v) \<and>
      holds (q_priority q) (\<lambda>v. priority t = v) \<and>
      holds (q_isRecurring q) (\<lambda>v. isRecurring t = v) \<and>
      holds (q_recurringType q) (\<lambda>v. recurringType t = Some v) \<and>
      holds (q_or q) (\<lambda>cs. list_ex (\<lambda>c. clauseMatches rx c t) cs) \<and>
      holds (q_assignedTo q) (\<lambda>v. assignedTo t = ObjectId_toString v) \<and>
      holds (q_createdBy q) (\<lambda>v. createdBy t = ObjectId_toString v) \<and>
      holds (q_dueDate_gte q) (\<lambda>v. v \<le> dueDate t) \<and>
      holds (q_dueDate_lt q) (\<lambda>v. dueDate t < v))"

text \<open>
  What makes the database refuse a filter, so that the route's \<^verbatim>\<open>catch\<close> answers 500:
  a reference field compared with a string of the request that is no ObjectId, or a
  regular expression it cannot compile. The two reference clauses of \<^verbatim>\<open>$or\<close> are only
  ever built from \<^verbatim>\<open>user._id\<close>, which is an ObjectId already.
\<close>

fun clauseRejected :: "regex \<Rightarrow> clause \<Rightarrow> bool" where
  "clauseRejected rx (AssignedToIs i) = False"
| "clauseRejected rx (CreatedByIs i) = False"
| "clauseRejected rx (TitleRegex p) = (rx p = None)"
| "clauseRejected rx (DescriptionRegex p) = (rx p = None)"

definition queryRejected :: "regex \<Rightarrow> query \<Rightarrow> bool" where
  "queryRejected rx q =
     (\<not> holds (q_assignedTo q) ObjectId_isValid \<or>
      \<not> holds (q_createdBy q) ObjectId_isValid \<or>
      \<not> holds (q_or q) (\<lambda>cs. \<not> list_ex (clauseRejected rx) cs))"

definition Task_find :: "regex \<Rightarrow> query \<Rightarrow> task list \<Rightarrow> task list" where
  "Task_find rx q ts = filter (matches rx q) ts"

text \<open>
  \<^verbatim>\<open>.sort({[field]: 1 | -1})\<close>. The key puts a field the documents do not have first,
  then numbers, then strings; documents with equal keys keep an order of the model's
  choosing, as the database promises none.
\<close>

definition sortKey :: "string \<Rightarrow> task \<Rightarrow> nat \<times> int \<times> string" where
  "sortKey field t =
     (if field = ''dueDate'' then (1, dueDate t, [])
      else if field = ''title'' then (2, 0, title t)
      else if field = ''description'' then (2, 0, description t)
      else if field = ''priority'' then (2, 0, priority t)
      else if field = ''status'' then (2, 0, status t)
      else if field = ''_id'' then (2, 0, task_id t)
      else if field = ''assignedTo'' then (2, 0, assignedTo t)
      else if field = ''createdBy'' then (2, 0, createdBy t)
      else if field = ''isRecurring'' then (1, if isRecurring t then 1 else 0, [])
      else (0, 0, []))"

text \<open>
  The field paths the database refuses to sort on, so that the route's \<^verbatim>\<open>catch\<close>
  answers 500: the empty name, a path with an empty component or with a component that
  starts with \<^verbatim>\<open>$\<close> (\<^verbatim>\<open>$natural\<close> apart), and a name with a NUL character.
\<close>

fun pathComponents :: "string \<Rightarrow> string list" where
  "pathComponents [] = [[]]"
| "pathComponents (c # cs) =
     (if c = CHR ''.'' then [] # pathComponents cs
      else (case pathComponents cs of [] \<Rightarrow> [[c]] | p # ps \<Rightarrow> (c # p) # ps))"

definition componentRejected :: "string \<Rightarrow> bool" where
  "componentRejected p = (case p of [] \<Rightarrow> True | c # cs \<Rightarrow> c = CHR ''$'')"

definition sortRejected :: "string \<Rightarrow> bool" where
  "sortRejected field =
     (field \<noteq> ''$natural'' \<and>
      (list_ex componentRejected (pathComponents field) \<or> CHR 0x00 \<in> set field))"

definition sortTasks :: "string \<Rightarrow> bool \<Rightarrow> task list \<Rightarrow> task list option" where
  "sortTasks field ascending ts =
     (if sortRejected field then None
      else if ascending then Some (sort_key (sortKey field) ts)
      else Some (rev (sort_key (sortKey field) ts)))"

text \<open>
  \<^verbatim>\<open>parseInt(s, 10)\<close>: leading blanks, an optional sign, then the longest run of
  decimal digits; \<open>None\<close> is \<^verbatim>\<open>NaN\<close>.
\<close>

definition isDigit :: "char \<Rightarrow> bool" where
  "isDigit c = (c \<in> set ''0123456789'')"

definition digitsValue :: "string \<Rightarrow> int" where
  "digitsValue ds = foldl (\<lambda>acc c. 10 * acc + (int (of_char c) - 48)) 0 ds"

definition parseDigits :: "string \<Rightarrow> int option" where
  "parseDigits s =
     (let ds = takeWhile isDigit s in if ds = [] then None else Some (digitsValue ds))"

definition parseInt :: "string \<Rightarrow> int option" where
  "parseInt s =
     (case dropWhile (\<lambda>c. c = CHR '' '') s of
        [] \<Rightarrow> None
      | c # cs \<Rightarrow>
          if c = CHR ''-'' then map_option uminus (parseDigits cs)
          else if c = CHR ''+'' then parseDigits cs
          else parseDigits (c # cs))"

text \<open>
  \<^verbatim>\<open>.limit(n)\<close>: zero is no limit and a negative number limits to its absolute value;
  \<^verbatim>\<open>NaN\<close> makes the database refuse the query.
\<close>

definition applyLimit :: "int option \<Rightarrow> task list \<Rightarrow> task list option" where
  "applyLimit n ts =
     (case n of
        None \<Rightarrow> None
      | Some k \<Rightarrow> if k = 0 then Some ts else Some (take (nat \<bar>k\<bar>) ts))"

section \<open>GET /api/tasks and GET /api/tasks/stats\<close>

text \<open>The query string of \<^verbatim>\<open>GET /api/tasks\<close>; every parameter is optional.\<close>

record list_params =
  p_status :: "string option"
  p_priority :: "string option"
  p_search :: "string option"
  p_assignedTo :: "string option"
  p_createdBy :: "string option"
  p_isRecurring :: "string option"
  p_recurringType :: "string option"
  p_sortBy :: "string option"
  p_sortOrder :: "string option"
  p_limit :: "string option"

text \<open>
  The filter of \<^verbatim>\<open>GET /api/tasks\<close>, built in the order of the source: the four field
  filters, the \<^verbatim>\<open>$or\<close> of the search, then the role branch, which for a caller who is
  neither admin nor manager assigns \<^verbatim>\<open>$or\<close> again.
\<close>

definition canSeeAllTasks :: "user \<Rightarrow> bool" where
  "canSeeAllTasks u = (role u = Some ''admin'' \<or> role u = Some ''manager'')"

definition buildTaskQuery :: "user \<Rightarrow> list_params \<Rightarrow> query" where
  "buildTaskQuery u ps =
     (let q1 = (if truthy (p_status ps) then emptyQuery\<lparr>q_status := p_status ps\<rparr>
                else emptyQuery);
          q2 = (if truthy (p_priority ps) then q1\<lparr>q_priority := p_priority ps\<rparr> else q1);
          q3 = (case p_isRecurring ps of
                  None \<Rightarrow> q2
                | Some v \<Rightarrow> q2\<lparr>q_isRecurring := Some (v = ''true'')\<rparr>);
          q4 = (if truthy (p_recurringType ps)
                then q3\<lparr>q_recurringType := p_recurringType ps\<rparr> else q3);
          q5 = (case p_search ps of
                  None \<Rightarrow> q4
                | Some s \<Rightarrow>
                    if s = [] then q4
                    else q4\<lparr>q_or := Some [TitleRegex s, DescriptionRegex s]\<rparr>)
      in if \<not> canSeeAllTasks u
         then q5\<lparr>q_or := Some [AssignedToIs (user_id u), CreatedByIs (user_id u)]\<rparr>
         else
           (let q6 = (if truthy (p_assignedTo ps)
                      then q5\<lparr>q_assignedTo := p_assignedTo ps\<rparr> else q5)
            in if truthy (p_createdBy ps) then q6\<lparr>q_createdBy := p_createdBy ps\<rparr>
               else q6))"

definition serverError :: response where
  "serverError = Response 500 (Message ''Server error'')"

text \<open>
  The handler. \<open>sortBy\<close> and \<open>sortOrder\<close> have their defaults only when the
  parameter is absent. \<open>reqUser\<close> is \<^verbatim>\<open>req.user\<close>, which \<open>authenticateToken\<close> sets before any
  task route runs; without it \<^verbatim>\<open>user.role\<close> throws inside the \<^verbatim>\<open>try\<close>. The response
  carries the task documents (\<^verbatim>\<open>populate\<close> only expands the two user references in
  the JSON).
\<close>

definition sortField :: "list_params \<Rightarrow> string" where
  "sortField ps = (case p_sortBy ps of None \<Rightarrow> ''dueDate'' | Some f \<Rightarrow> f)"

definition ascending :: "list_params \<Rightarrow> bool" where
  "ascending ps = (case p_sortOrder ps of None \<Rightarrow> True | Some v \<Rightarrow> v = ''asc'')"

definition getTasks :: "regex \<Rightarrow> user option \<Rightarrow> list_params \<Rightarrow> db \<Rightarrow> response" where
  "getTasks rx reqUser ps d =
     (case reqUser of
        None \<Rightarrow> serverError
      | Some u \<Rightarrow>
          (let q = buildTaskQuery u ps
           in if queryRejected rx q then serverError
              else (case sortTasks (sortField ps) (ascending ps) (Task_find rx q (tasks d)) of
                      None \<Rightarrow> serverError
                    | Some found \<Rightarrow>
                        (case p_limit ps of
                           None \<Rightarrow> Response 200 (TaskList found)
                         | Some l \<Rightarrow>
                             if l = [] then Response 200 (TaskList found)
                             else (case applyLimit (parseInt l) found of
                                     None \<Rightarrow> serverError
                                   | Some limited \<Rightarrow> Response 200 (TaskList limited))))))"


definition noRegex :: regex where
  "noRegex p = None"





section \<open>POST, PUT and DELETE /api/tasks\<close>

text \<open>
  A date field of a request body: an ISO 8601 string, given by the instant it denotes,
  or any other string.
\<close>

datatype date_input = ISO8601 int | NotADate string

text \<open>
  The request body of \<^verbatim>\<open>POST /api/tasks\<close> and \<^verbatim>\<open>PUT /api/tasks/:id\<close>, with the types
  of the task interface; \<open>None\<close> is a property the body does not have. \<open>b_status\<close>,
  \<open>b_createdBy\<close> and \<open>b_parentTaskId\<close> matter to \<^verbatim>\<open>PUT\<close> only: it writes the body as it
  is, while \<^verbatim>\<open>POST\<close> reads the fields it names.
\<close>

record task_body =
  b_title :: "string option"
  b_description :: "string option"
  b_dueDate :: "date_input option"
  b_priority :: "string option"
  b_status :: "string option"
  b_assignedTo :: "string option"
  b_isRecurring :: "bool option"
  b_recurringType :: "string option"
  b_recurringInterval :: "int option"
  b_recurringDays :: "int list option"
  b_recurringDate :: "int option"
  b_recurringEndDate :: "date_input option"
  b_createdBy :: "string option"
  b_parentTaskId :: "string option"

text \<open>The validator chains: each gives the messages of its failures.\<close>

definition required :: "string option \<Rightarrow> string \<Rightarrow> string list" where
  "required v msg = (if truthy v then [] else [msg])"

definition optionalNotEmpty :: "string option \<Rightarrow> string \<Rightarrow> string list" where
  "optionalNotEmpty v msg = (case v of None \<Rightarrow> [] | Some x \<Rightarrow> if x = [] then [msg] else [])"

definition requiredIn :: "string option \<Rightarrow> string list \<Rightarrow> string \<Rightarrow> string list" where
  "requiredIn v allowed msg =
     (case v of None \<Rightarrow> [msg] | Some x \<Rightarrow> if x \<in> set allowed then [] else [msg])"

definition optionalIn :: "string option \<Rightarrow> string list \<Rightarrow> string \<Rightarrow> string list" where
  "optionalIn v allowed msg =
     (case v of None \<Rightarrow> [] | Some x \<Rightarrow> if x \<in> set allowed then [] else [msg])"

definition requiredDate :: "date_input option \<Rightarrow> string \<Rightarrow> string list" where
  "requiredDate v msg = (case v of Some (ISO8601 t) \<Rightarrow> [] | _ \<Rightarrow> [msg])"

definition optionalDate :: "date_input option \<Rightarrow> string \<Rightarrow> string list" where
  "optionalDate v msg = (case v of Some (NotADate x) \<Rightarrow> [msg] | _ \<Rightarrow> [])"

definition optionalInt :: "int option \<Rightarrow> (int \<Rightarrow> bool) \<Rightarrow> string \<Rightarrow> string list" where
  "optionalInt v inRange msg =
     (case v of None \<Rightarrow> [] | Some n \<Rightarrow> if inRange n then [] else [msg])"

definition recurringValidators :: "task_body \<Rightarrow> string list" where
  "recurringValidators b =
     optionalIn (b_recurringType b) [''daily'', ''weekly'', ''monthly'', ''custom'']
       ''Recurring type must be daily, weekly, monthly, or custom'' @
     optionalInt (b_recurringInterval b) (\<lambda>n. 1 \<le> n)
       ''Recurring interval must be a positive integer'' @
     (case b_recurringDays b of
        None \<Rightarrow> []
      | Some ds \<Rightarrow>
          map (\<lambda>n. ''Recurring days must be between 0 and 6'')
            (filter (\<lambda>n. \<not> (0 \<le> n \<and> n \<le> 6)) ds)) @
     optionalInt (b_recurringDate b) (\<lambda>n. 1 \<le> n \<and> n \<le> 31)
       ''Recurring date must be between 1 and 31'' @
     optionalDate (b_recurringEndDate b) ''Valid recurring end date is required''"

definition createValidators :: "task_body \<Rightarrow> string list" where
  "createValidators b =
     required (b_title b) ''Title is required'' @
     required (b_description b) ''Description is required'' @
     requiredDate (b_dueDate b) ''Valid due date is required'' @
     requiredIn (b_priority b) [''low'', ''medium'', ''high'']
       ''Priority must be low, medium, or high'' @
     required (b_assignedTo b) ''Assignee is required'' @
     recurringValidators b"

definition updateValidators :: "task_body \<Rightarrow> string list" where
  "updateValidators b =
     optionalNotEmpty (b_title b) ''Title cannot be empty'' @
     optionalNotEmpty (b_description b) ''Description cannot be empty'' @
     optionalDate (b_dueDate b) ''Valid due date is required'' @
     optionalIn (b_priority b) [''low'', ''medium'', ''high'']
       ''Priority must be low, medium, or high'' @
     optionalIn (b_status b) [''todo'', ''in-progress'', ''completed''] ''Invalid status'' @
     recurringValidators b"

definition dateOf :: "date_input option \<Rightarrow> int option" where
  "dateOf v = (case v of Some (ISO8601 t) \<Rightarrow> Some t | _ \<Rightarrow> None)"

text \<open>
  \<^verbatim>\<open>new Task({...})\<close> from a body that passed the validators. The schema is not part of
  the sources: its defaults are taken to be \<^verbatim>\<open>'todo'\<close> for the status and \<^verbatim>\<open>false\<close> for
  \<open>isRecurring\<close>. \<open>newId\<close> is the ObjectId the driver generates.
\<close>

definition newTask :: "string \<Rightarrow> string \<Rightarrow> task_body \<Rightarrow> task" where
  "newTask newId creator b =
     \<lparr>task_id = newId,
      title = (case b_title b of Some v \<Rightarrow> v | None \<Rightarrow> []),
      description = (case b_description b of Some v \<Rightarrow> v | None \<Rightarrow> []),
      dueDate = (case dateOf (b_dueDate b) of Some t \<Rightarrow> t | None \<Rightarrow> 0),
      priority = (case b_priority b of Some v \<Rightarrow> v | None \<Rightarrow> []),
      status = ''todo'',
      assignedTo = (case b_assignedTo b of Some v \<Rightarrow> ObjectId_toString v | None \<Rightarrow> []),
      createdBy = creator,
      isRecurring = (b_isRecurring b = Some True),
      recurringType = b_recurringType b,
      recurringInterval = b_recurringInterval b,
      recurringDays = b_recurringDays b,
      recurringDate = b_recurringDate b,
      recurringEndDate = dateOf (b_recurringEndDate b),
      parentTaskId = None\<rparr>"

text \<open>
  \<^verbatim>\<open>POST /api/tasks\<close>. \<open>spawn\<close> is the call \<^verbatim>\<open>createRecurringTaskInstance(task)\<close> of
  the recurrence service, as a function on the task collection.
\<close>

definition createTask ::
  "(task \<Rightarrow> task list \<Rightarrow> task list) \<Rightarrow> string \<Rightarrow> user option \<Rightarrow> task_body \<Rightarrow> db
     \<Rightarrow> response \<times> db" where
  "createTask spawn newId reqUser b d =
     (case checkPermission ''tasks:create'' reqUser of
        Some denied \<Rightarrow> (denied, d)
      | None \<Rightarrow>
          if createValidators b \<noteq> [] then (Response 400 (Errors (createValidators b)), d)
          else (case (reqUser, b_assignedTo b) of
                  (Some u, Some assignee) \<Rightarrow>
                    if \<not> ObjectId_isValid assignee then (serverError, d)
                    else if User_findById assignee (users d) = None
                    then (Response 404 (Message ''Assigned user not found''), d)
                    else if b_isRecurring b = Some True \<and> \<not> truthy (b_recurringType b)
                    then (Response 400
                            (Message ''Recurring type is required for recurring tasks''), d)
                    else
                      (let t = newTask newId (user_id u) b;
                           d1 = d\<lparr>tasks := tasks d @ [t]\<rparr>;
                           d2 = (if b_isRecurring b = Some True
                                 then d1\<lparr>tasks := spawn t (tasks d1)\<rparr> else d1);
                           d3 = (if assignee \<noteq> user_id u
                                 then createNotification assignee
                                        (''You have been assigned a new task: '' @ title t)
                                        ''task_assigned'' (Some newId) d2
                                 else d2)
                       in (Response 201 (TaskResult ''Task created successfully'' (Some t)),
                           d3))
                | _ \<Rightarrow> (serverError, d)))"

text \<open>
  \<^verbatim>\<open>{ $set: req.body }\<close> on a task document: every field the body has is written, the
  references \<open>createdBy\<close> and \<open>parentTaskId\<close>, which no validator looks at, included.
  A string for a reference field is stored as the ObjectId it is cast to.
\<close>

definition setField :: "'a option \<Rightarrow> 'a \<Rightarrow> 'a" where
  "setField v old = (case v of None \<Rightarrow> old | Some x \<Rightarrow> x)"

definition setOptional :: "'a option \<Rightarrow> 'a option \<Rightarrow> 'a option" where
  "setOptional v old = (case v of None \<Rightarrow> old | Some x \<Rightarrow> Some x)"

definition applyBody :: "task_body \<Rightarrow> task \<Rightarrow> task" where
  "applyBody b t =
     t\<lparr>title := setField (b_title b) (title t),
       description := setField (b_description b) (description t),
       dueDate := setField (dateOf (b_dueDate b)) (dueDate t),
       priority := setField (b_priority b) (priority t),
       status := setField (b_status b) (status t),
       assignedTo := setField (map_option ObjectId_toString (b_assignedTo b)) (assignedTo t),
       createdBy := setField (map_option ObjectId_toString (b_createdBy b)) (createdBy t),
       isRecurring := setField (b_isRecurring b) (isRecurring t),
       recurringType := setOptional (b_recurringType b) (recurringType t),
       recurringInterval := setOptional (b_recurringInterval b) (recurringInterval t),
       recurringDays := setOptional (b_recurringDays b) (recurringDays t),
       recurringDate := setOptional (b_recurringDate b) (recurringDate t),
       recurringEndDate := setOptional (dateOf (b_recurringEndDate b)) (recurringEndDate t),
       parentTaskId :=
         setOptional (map_option ObjectId_toString (b_parentTaskId b)) (parentTaskId t)\<rparr>"

definition replaceTask :: "task \<Rightarrow> task list \<Rightarrow> task list" where
  "replaceTask t' ts = map (\<lambda>x. if task_id x = task_id t' then t' else x) ts"

text \<open>\<^verbatim>\<open>Task.deleteMany({ parentTaskId: id })\<close>.\<close>

definition deleteChildren :: "string \<Rightarrow> task list \<Rightarrow> task list" where
  "deleteChildren i ts = filter (\<lambda>x. parentTaskId x \<noteq> Some i) ts"

text \<open>The three notifications at the end of \<^verbatim>\<open>PUT /api/tasks/:id\<close>, in their order.\<close>

definition updateNotifications :: "user \<Rightarrow> task \<Rightarrow> task_body \<Rightarrow> db \<Rightarrow> db" where
  "updateNotifications u t b d =
     (let originalAssignee = assignedTo t;
          d1 = (case b_assignedTo b of
                  None \<Rightarrow> d
                | Some a \<Rightarrow>
                    if a \<noteq> [] \<and> a \<noteq> originalAssignee
                    then createNotification a (''You have been assigned to task: '' @ title t)
                           ''task_assigned'' (Some (task_id t)) d
                    else d);
          d2 = (if b_status b = Some ''completed'' \<and> status t \<noteq> ''completed'' \<and>
                   createdBy t \<noteq> user_id u
                then createNotification (createdBy t) (''Task completed: '' @ title t)
                       ''task_completed'' (Some (task_id t)) d1
                else d1)
      in if user_id u \<noteq> originalAssignee \<and>
            (b_assignedTo b = None \<or> b_assignedTo b = Some originalAssignee)
         then createNotification originalAssignee (''Task updated: '' @ title t)
                ''task_updated'' (Some (task_id t)) d2
         else d2)"

text \<open>
  \<^verbatim>\<open>PUT /api/tasks/:id\<close>. The checks come in the order of the source: validators, the
  format of the id, the lookup, the role and ownership check, then the guard on
  instances of a recurring series. An \<open>assignedTo\<close>, \<open>createdBy\<close> or \<open>parentTaskId\<close>
  that is no ObjectId fails the cast of the update, which the \<^verbatim>\<open>catch\<close> answers.
\<close>

definition updateTask ::
  "(task \<Rightarrow> task list \<Rightarrow> task list) \<Rightarrow> user option \<Rightarrow> string \<Rightarrow> task_body \<Rightarrow> db
     \<Rightarrow> response \<times> db" where
  "updateTask spawn reqUser i b d =
     (if updateValidators b \<noteq> [] then (Response 400 (Errors (updateValidators b)), d)
      else if \<not> ObjectId_isValid i then (Response 400 (Message ''Invalid task ID format''), d)
      else (case Task_findById i (tasks d) of
              None \<Rightarrow> (Response 404 (Message ''Task not found''), d)
            | Some t \<Rightarrow>
                (case reqUser of
                   None \<Rightarrow> (serverError, d)
                 | Some u \<Rightarrow>
                     (let isTaskCreator = (createdBy t = user_id u);
                          isAdmin = (role u = Some ''admin'');
                          isManager = (role u = Some ''manager'')
                      in if \<not> isTaskCreator \<and> \<not> isAdmin \<and> \<not> isManager
                         then (Response 403
                                 (Message ''You do not have permission to update this task''), d)
                         else if parentTaskId t \<noteq> None \<and> b_isRecurring b = Some True
                         then (Response 400 (Message
                                 ''Cannot make a recurring task instance into a recurring task''),
                               d)
                         else if \<not> holds (b_assignedTo b) ObjectId_isValid \<or>
                                 \<not> holds (b_createdBy b) ObjectId_isValid \<or>
                                 \<not> holds (b_parentTaskId b) ObjectId_isValid
                         then (serverError, d)
                         else
                           (let updatedTask = applyBody b t;
                                ts1 = replaceTask updatedTask (tasks d);
                                isNowCompleted = (b_status b = Some ''completed'' \<and>
                                                  status t \<noteq> ''completed'');
                                ts2 = (if isNowCompleted \<and> isRecurring updatedTask
                                       then spawn updatedTask ts1 else ts1);
                                recurringChanged =
                                  (Some (isRecurring t) \<noteq> b_isRecurring b \<or>
                                   recurringType t \<noteq> b_recurringType b);
                                ts3 = (if recurringChanged \<and> isRecurring updatedTask
                                       then spawn updatedTask (deleteChildren i ts2)
                                       else ts2)
                            in (Response 200
                                  (TaskResult ''Task updated successfully'' (Some updatedTask)),
                                updateNotifications u t b (d\<lparr>tasks := ts3\<rparr>)))))))"

text \<open>\<^verbatim>\<open>DELETE /api/tasks/:id\<close>.\<close>

definition deleteTask :: "user option \<Rightarrow> string \<Rightarrow> db \<Rightarrow> response \<times> db" where
  "deleteTask reqUser i d =
     (if \<not> ObjectId_isValid i then (Response 400 (Message ''Invalid task ID format''), d)
      else (case Task_findById i (tasks d) of
              None \<Rightarrow> (Response 404 (Message ''Task not found''), d)
            | Some t \<Rightarrow>
                (case reqUser of
                   None \<Rightarrow> (serverError, d)
                 | Some u \<Rightarrow>
                     (let isTaskCreator = (createdBy t = user_id u);
                          isAdmin = (role u = Some ''admin'')
                      in if \<not> isTaskCreator \<and> \<not> isAdmin
                         then (Response 403
                                 (Message ''You do not have permission to delete this task''), d)
                         else
                           (let d1 = (if assignedTo t \<noteq> user_id u
                                      then createNotification (assignedTo t)
                                             (''Task deleted: '' @ title t) ''system'' None d
                                      else d)
                            in (Response 200 (Message ''Task deleted successfully''),
                                d1\<lparr>tasks := filter (\<lambda>x. task_id x \<noteq> task_id t)
                                               (tasks d1)\<rparr>))))))"

section \<open>PUT /api/users/:id/role and DELETE /api/users/:id\<close>

text \<open>
  \<^verbatim>\<open>User.findById(req.params.id)\<close> throws for an id that is no ObjectId, and the
  \<^verbatim>\<open>catch\<close> answers 500. \<open>newRole\<close> is \<^verbatim>\<open>req.body.role\<close>.
\<close>

definition updateUserRole :: "user option \<Rightarrow> string \<Rightarrow> string option \<Rightarrow> db \<Rightarrow> response \<times> db" where
  "updateUserRole reqUser i newRole d =
     (case checkPermission ''users:manage-roles'' reqUser of
        Some denied \<Rightarrow> (denied, d)
      | None \<Rightarrow>
          if requiredIn newRole [''admin'', ''manager'', ''user''] ''Invalid role'' \<noteq> []
          then (Response 400
                  (Errors (requiredIn newRole [''admin'', ''manager'', ''user''] ''Invalid role'')),
                d)
          else if \<not> ObjectId_isValid i then (serverError, d)
          else (case User_findById i (users d) of
                  None \<Rightarrow> (Response 404 (Message ''User not found''), d)
                | Some target \<Rightarrow>
                    if Some (user_id target) = map_option user_id reqUser
                    then (Response 403 (Message ''You cannot change your own role''), d)
                    else
                      (let saved = target\<lparr>role := newRole\<rparr>
                       in (Response 200 (UserResult ''User role updated successfully'' saved),
                           d\<lparr>users := map (\<lambda>x. if user_id x = user_id target then saved else x)
                                         (users d)\<rparr>))))"

definition deleteUser :: "user option \<Rightarrow> string \<Rightarrow> db \<Rightarrow> response \<times> db" where
  "deleteUser reqUser i d =
     (case checkPermission ''users:delete'' reqUser of
        Some denied \<Rightarrow> (denied, d)
      | None \<Rightarrow>
          if \<not> ObjectId_isValid i then (serverError, d)
          else (case User_findById i (users d) of
                  None \<Rightarrow> (Response 404 (Message ''User not found''), d)
                | Some target \<Rightarrow>
                    if Some (user_id target) = map_option user_id reqUser
                    then (Response 403 (Message ''You cannot delete your own account''), d)
                    else (Response 200 (Message ''User deleted successfully''),
                          d\<lparr>users := filter (\<lambda>x. user_id x \<noteq> user_id target) (users d)\<rparr>)))"

section \<open>The recurrence service\<close>

text \<open>
  Modelled from the spec: \<^verbatim>\<open>createRecurringTaskInstance\<close> of
  services/recurringTaskService, which the routes and the daily job call and which is
  not among the sources. The spec gives a recurring task as a template that spawns
  successive instances on a schedule until an optional end date, by simple date
  arithmetic, with the parent/child linkage as the one thing persisted about the
  series. So the model computes the next due date with the schedule's date-offset
  calculator \<open>nextDueDate\<close> (a parameter: the spec names the schedules and no offsets),
  spawns nothing when the template has an end date and the next due date is after it,
  and otherwise stores one instance: the template's fields under the new id \<open>newId\<close>,
  due at that date, open, not itself recurring, with \<open>parentTaskId\<close> the template's id.
\<close>

definition recurringInstance :: "(task \<Rightarrow> int) \<Rightarrow> string \<Rightarrow> task \<Rightarrow> task" where
  "recurringInstance nextDueDate newId template =
     template\<lparr>task_id := newId, dueDate := nextDueDate template, status := ''todo'',
       isRecurring := False, parentTaskId := Some (task_id template)\<rparr>"

definition createRecurringTaskInstance ::
  "(task \<Rightarrow> int) \<Rightarrow> string \<Rightarrow> task \<Rightarrow> task list \<Rightarrow> task list" where
  "createRecurringTaskInstance nextDueDate newId template ts =
     (case recurringEndDate template of
        None \<Rightarrow> ts @ [recurringInstance nextDueDate newId template]
      | Some endDate \<Rightarrow>
          if endDate < nextDueDate template then ts
          else ts @ [recurringInstance nextDueDate newId template])"

section \<open>Role scoping, as the claims word it\<close>






section \<open>Example data\<close>

text \<open>Four users: an admin, a manager and two regular users.\<close>

definition ada :: user where
  "ada = \<lparr>user_id = ''64b000000000000000000001'', name = ''Ada'',
           email = ''ada@example.org'', role = Some ''admin''\<rparr>"

definition moe :: user where
  "moe = \<lparr>user_id = ''64b000000000000000000002'', name = ''Moe'',
           email = ''moe@example.org'', role = Some ''manager''\<rparr>"

definition una :: user where
  "una = \<lparr>user_id = ''64b000000000000000000003'', name = ''Una'',
           email = ''una@example.org'', role = Some ''user''\<rparr>"

definition uwe :: user where
  "uwe = \<lparr>user_id = ''64b000000000000000000004'', name = ''Uwe'',
           email = ''uwe@example.org'', role = Some ''user''\<rparr>"

text \<open>
  A task Ada created for Una, a weekly template of Una's with an instance of it, and a
  task Ada created for Moe.
\<close>

definition report :: task where
  "report = \<lparr>task_id = ''74b000000000000000000001'', title = ''Report'',
      description = ''Write the report'', dueDate = 1000, priority = ''low'',
      status = ''todo'', assignedTo = ''64b000000000000000000003'',
      createdBy = ''64b000000000000000000001'', isRecurring = False,
      recurringType = None, recurringInterval = None, recurringDays = None,
      recurringDate = None, recurringEndDate = None, parentTaskId = None\<rparr>"

definition backup :: task where
  "backup = \<lparr>task_id = ''74b000000000000000000002'', title = ''Backup'',
      description = ''Run the backup'', dueDate = 2000, priority = ''high'',
      status = ''todo'', assignedTo = ''64b000000000000000000003'',
      createdBy = ''64b000000000000000000003'', isRecurring = True,
      recurringType = Some ''weekly'', recurringInterval = None, recurringDays = None,
      recurringDate = None, recurringEndDate = Some 5000, parentTaskId = None\<rparr>"

definition backup2 :: task where
  "backup2 = backup\<lparr>task_id := ''74b000000000000000000003'', dueDate := 3000,
      isRecurring := False, parentTaskId := Some ''74b000000000000000000002''\<rparr>"

definition audit :: task where
  "audit = \<lparr>task_id = ''74b000000000000000000004'', title = ''Audit'',
      description = ''Check the accounts'', dueDate = 4000, priority = ''medium'',
      status = ''completed'', assignedTo = ''64b000000000000000000002'',
      createdBy = ''64b000000000000000000001'', isRecurring = False,
      recurringType = None, recurringInterval = None, recurringDays = None,
      recurringDate = None, recurringEndDate = None, parentTaskId = None\<rparr>"

definition office :: db where
  "office = \<lparr>tasks = [report, backup, backup2, audit], users = [ada, moe, una, uwe],
              notifications = []\<rparr>"

definition noParams :: list_params where
  "noParams = \<lparr>p_status = None, p_priority = None, p_search = None, p_assignedTo = None,
      p_createdBy = None, p_isRecurring = None, p_recurringType = None, p_sortBy = None,
      p_sortOrder = None, p_limit = None\<rparr>"

definition emptyBody :: task_body where
  "emptyBody = \<lparr>b_title = None, b_description = None, b_dueDate = None, b_priority = None,
      b_status = None, b_assignedTo = None, b_isRecurring = None, b_recurringType = None,
      b_recurringInterval = None, b_recurringDays = None, b_recurringDate = None,
      b_recurringEndDate = None, b_createdBy = None, b_parentTaskId = None\<rparr>"

text \<open>A schedule for the examples: the next due date is a thousand later.\<close>

definition plusThousand :: "task \<Rightarrow> int" where
  "plusThousand t = dueDate t + 1000"

text \<open>A recurrence service that spawns nothing, for the requests that never reach it.\<close>

definition noSpawn :: "task \<Rightarrow> task list \<Rightarrow> task list" where
  "noSpawn t ts = ts"

text \<open>
  Two request bodies for a recurring task without a recurring type: one assigned to a
  user the office does not have, one assigned to Uwe.
\<close>

definition recurringNoType :: task_body where
  "recurringNoType = emptyBody\<lparr>b_title := Some ''Standup'',
      b_description := Some ''Daily standup'', b_dueDate := Some (ISO8601 6000),
      b_priority := Some ''medium'', b_assignedTo := Some ''64b000000000000000000009'',
      b_isRecurring := Some True\<rparr>"

definition standup :: task_body where
  "standup = recurringNoType\<lparr>b_assignedTo := Some ''64b000000000000000000004''\<rparr>"

text \<open>
  A daily standup that ends at 9000, as Una posts it, with the template and the first
  instance it gives under the schedule of the examples; and the update that completes
  a task.
\<close>

definition dailyStandup :: task_body where
  "dailyStandup = standup\<lparr>b_recurringType := Some ''daily'',
      b_recurringEndDate := Some (ISO8601 9000)\<rparr>"

definition standupTemplate :: task where
  "standupTemplate = newTask ''74b000000000000000000005'' (user_id una) dailyStandup"

definition standupInstance :: task where
  "standupInstance = recurringInstance plusThousand ''74b000000000000000000006'' standupTemplate"

definition complete :: task_body where
  "complete = emptyBody\<lparr>b_status := Some ''completed''\<rparr>"

definition backup3 :: task where
  "backup3 = recurringInstance plusThousand ''74b000000000000000000006'' (applyBody complete backup)"


section \<open>Permission checks\<close>

text \<open>
  C1: the code breaks the claim at a role that is no key of the table and names a
  property every object inherits. For the role \<^verbatim>\<open>'constructor'\<close> the table has no entry,
  yet the read finds \<^verbatim>\<open>Object.prototype.constructor\<close>, which is neither \<^verbatim>\<open>null\<close> nor
  \<^verbatim>\<open>undefined\<close>; the call of its missing \<^verbatim>\<open>includes\<close> throws a TypeError where the
  claim, and the \<^verbatim>\<open>|| false\<close> of the code, have false.
\<close>

theorem hasPermission_constructor_throws:
  "rolePermissions ''constructor'' = None \<and>
   hasPermission (Some (uwe\<lparr>role := Some ''constructor''\<rparr>)) ''tasks:read'' = Inl TypeError"
  by (simp add: hasPermission_def rolePermissions_get_def rolePermissions_def
      objectPrototypeKeys_def uwe_def)

text \<open>
  On every other input the function is the table lookup: it returns true exactly when
  the permission is an element of the entry for the user's role, and false when that
  entry lacks it, when the user or the role is absent, and when the role is neither a
  key of the table nor an inherited property name.
\<close>

lemma hasPermission_elsewhere:
  "(hasPermission u p = Inr True \<longleftrightarrow>
      (\<exists>usr r ps. u = Some usr \<and> role usr = Some r \<and> rolePermissions r = Some ps \<and> p \<in> set ps))
   \<and> (\<forall>usr r ps. u = Some usr \<and> role usr = Some r \<and> rolePermissions r = Some ps \<and> p \<notin> set ps
         \<longrightarrow> hasPermission u p = Inr False)
   \<and> (u = None \<longrightarrow> hasPermission u p = Inr False)
   \<and> (\<forall>usr. u = Some usr \<and> role usr = None \<longrightarrow> hasPermission u p = Inr False)
   \<and> (\<forall>usr r. u = Some usr \<and> role usr = Some r \<and> r \<notin> {''admin'', ''manager'', ''user''}
         \<and> r \<notin> set objectPrototypeKeys \<longrightarrow> hasPermission u p = Inr False)"
proof -
  have own: "rolePermissions r = None" if "r \<notin> {''admin'', ''manager'', ''user''}" for r
    using that by (simp add: rolePermissions_def)
  have nonempty: "rolePermissions [] = None"
    by (simp add: rolePermissions_def)
  have a: "hasPermission u p = Inr True \<longleftrightarrow>
      (\<exists>usr r ps. u = Some usr \<and> role usr = Some r \<and> rolePermissions r = Some ps \<and> p \<in> set ps)"
    using nonempty
    by (cases u) (auto simp: hasPermission_def rolePermissions_get_def
        split: option.splits if_splits)
  have a': "\<forall>usr r ps. u = Some usr \<and> role usr = Some r \<and> rolePermissions r = Some ps \<and>
      p \<notin> set ps \<longrightarrow> hasPermission u p = Inr False"
    using nonempty by (auto simp: hasPermission_def rolePermissions_get_def)
  have b: "u = None \<longrightarrow> hasPermission u p = Inr False"
    by (simp add: hasPermission_def)
  have c: "\<forall>usr. u = Some usr \<and> role usr = None \<longrightarrow> hasPermission u p = Inr False"
    by (simp add: hasPermission_def)
  have d: "\<forall>usr r. u = Some usr \<and> role usr = Some r \<and> r \<notin> {''admin'', ''manager'', ''user''}
         \<and> r \<notin> set objectPrototypeKeys \<longrightarrow> hasPermission u p = Inr False"
    using own by (auto simp: hasPermission_def rolePermissions_get_def)
  from a a' b c d show ?thesis by blast
qed

text \<open>
  C8: the outcome of a permission check depends on the role alone. Two users with equal
  \<open>role\<close> fields get the same result for every permission, an exception included,
  whatever their ids, names and addresses. \<open>hasPermission\<close> is a function of the user
  and the permission over a table that is a constant, so two evaluations on the same
  inputs agree.
\<close>

theorem hasPermission_role_only:
  "role u1 = role u2 \<Longrightarrow> hasPermission (Some u1) p = hasPermission (Some u2) p"
  by (simp add: hasPermission_def)

text \<open>C8 at two different users of the role \<^verbatim>\<open>'user'\<close>.\<close>

theorem hasPermission_role_only_witness:
  "role una = role uwe \<and> user_id una \<noteq> user_id uwe \<and>
   hasPermission (Some una) ''tasks:create'' = hasPermission (Some uwe) ''tasks:create''"
  using hasPermission_role_only [of una uwe "''tasks:create''"]
  by (simp add: una_def uwe_def)

section \<open>Task visibility\<close>














text \<open>
  The amended C2 in the office: Una lists her three tasks and not Ada's audit, Ada lists
  all four and, filtering by Moe's id in upper case, the audit; the statistics are
  counted over the same tasks.
\<close>

lemma getTasks_una_office:
  "getTasks noRegex (Some una) noParams office = Response 200 (TaskList [report, backup, backup2])"
  by code_simp




text \<open>
  C7: for a caller who is neither admin nor manager the search parameter has no effect
  on \<^verbatim>\<open>GET /api/tasks\<close>. The visibility clause is assigned to \<^verbatim>\<open>$or\<close> after the clause
  of the search, so the filter, and with it the response, is that of the same request
  without \<open>search\<close>.
\<close>

theorem getTasks_search_ignored:
  assumes "role u \<noteq> Some ''admin''" and "role u \<noteq> Some ''manager''"
  shows "getTasks rx (Some u) (ps\<lparr>p_search := s\<rparr>) d =
         getTasks rx (Some u) (ps\<lparr>p_search := None\<rparr>) d"
proof -
  have "buildTaskQuery u (ps\<lparr>p_search := s\<rparr>) = buildTaskQuery u (ps\<lparr>p_search := None\<rparr>)"
    using assms
    by (simp add: buildTaskQuery_def canSeeAllTasks_def Let_def split: option.splits)
  then show ?thesis
    by (simp add: getTasks_def Let_def sortField_def ascending_def cong: option.case_cong)
qed

text \<open>C7 at Una searching the office for \<^verbatim>\<open>backup\<close>: she gets all three of her tasks.\<close>

theorem getTasks_search_ignored_witness:
  "role una \<noteq> Some ''admin'' \<and> role una \<noteq> Some ''manager'' \<and>
   getTasks noRegex (Some una) (noParams\<lparr>p_search := Some ''backup''\<rparr>) office =
     Response 200 (TaskList [report, backup, backup2])"
  using getTasks_search_ignored [where u = una and rx = noRegex and ps = noParams
      and s = "Some ''backup''" and d = office] getTasks_una_office
  by (simp add: una_def noParams_def)

section \<open>Deleting a task\<close>

lemma ObjectId_isValid_examples:
  "ObjectId_isValid ''64b000000000000000000001''"
  "ObjectId_isValid ''64b000000000000000000002''"
  "ObjectId_isValid ''64b000000000000000000003''"
  "ObjectId_isValid ''64b000000000000000000004''"
  "ObjectId_isValid ''64b000000000000000000009''"
  "ObjectId_isValid ''74b000000000000000000001''"
  "ObjectId_isValid ''74b000000000000000000002''"
  "ObjectId_isValid ''74b000000000000000000003''"
  by (simp_all add: ObjectId_isValid_def isHexDigit_def)

text \<open>
  C6: \<^verbatim>\<open>DELETE /api/tasks/:id\<close> answers 200 only to the creator of the task or to an
  admin. For a task that exists, every other requester gets 403 and the database is as
  it was; that includes a manager, whose role holds \<^verbatim>\<open>tasks:delete-all\<close> in the table.
\<close>

theorem deleteTask_creator_or_admin:
  assumes "deleteTask (Some u) i d = (res, d')"
  shows "(statusCode res = 200 \<longrightarrow>
            (\<exists>t. Task_findById i (tasks d) = Some t \<and>
                 (createdBy t = user_id u \<or> role u = Some ''admin'')))
       \<and> (\<forall>t. ObjectId_isValid i \<and> Task_findById i (tasks d) = Some t \<and>
               createdBy t \<noteq> user_id u \<and> role u \<noteq> Some ''admin''
               \<longrightarrow> statusCode res = 403 \<and> d' = d)
       \<and> (role u = Some ''manager'' \<longrightarrow>
            hasPermission (Some u) ''tasks:delete-all'' = Inr True)"
proof -
  have a: "statusCode res = 200 \<longrightarrow>
            (\<exists>t. Task_findById i (tasks d) = Some t \<and>
                 (createdBy t = user_id u \<or> role u = Some ''admin''))"
    using assms
    by (auto simp: deleteTask_def Let_def split: if_splits option.splits)
  have b: "\<forall>t. ObjectId_isValid i \<and> Task_findById i (tasks d) = Some t \<and>
               createdBy t \<noteq> user_id u \<and> role u \<noteq> Some ''admin''
               \<longrightarrow> statusCode res = 403 \<and> d' = d"
    using assms by (auto simp: deleteTask_def)
  have c: "role u = Some ''manager'' \<longrightarrow>
            hasPermission (Some u) ''tasks:delete-all'' = Inr True"
    by (simp add: hasPermission_def rolePermissions_get_def rolePermissions_def
        managerPermissions_def)
  from a b c show ?thesis by blast
qed

lemma deleteTask_moe_report:
  "deleteTask (Some moe) ''74b000000000000000000001'' office =
     (Response 403 (Message ''You do not have permission to delete this task''), office)"
  by (simp add: deleteTask_def ObjectId_isValid_examples Task_findById_def office_def
      report_def moe_def)

lemma moe_report_facts:
  "role moe = Some ''manager''" "role moe \<noteq> Some ''admin''" "createdBy report \<noteq> user_id moe"
  "Task_findById ''74b000000000000000000001'' (tasks office) = Some report"
  by (simp_all add: Task_findById_def office_def report_def moe_def)

text \<open>C6 at Moe, a manager, deleting the report that Ada created.\<close>

theorem deleteTask_creator_or_admin_witness:
  "role moe = Some ''manager'' \<and> createdBy report \<noteq> user_id moe \<and>
   hasPermission (Some moe) ''tasks:delete-all'' = Inr True \<and>
   Task_findById ''74b000000000000000000001'' (tasks office) = Some report \<and>
   statusCode (Response 403 (Message ''You do not have permission to delete this task'')) = 403 \<and>
   deleteTask (Some moe) ''74b000000000000000000001'' office =
     (Response 403 (Message ''You do not have permission to delete this task''), office)"
  using deleteTask_creator_or_admin [OF deleteTask_moe_report] moe_report_facts
    deleteTask_moe_report
  by simp

section \<open>Creating a recurring task\<close>

text \<open>
  C3, as the claim has it, fails: not every request with \<open>isRecurring\<close> true and no
  recurring type is answered 400 with the message about the recurring type. The lookup
  of the assignee comes first, so when the assignee does not exist the answer is 404.
\<close>

theorem createTask_unknown_assignee_counterexample:
  "b_isRecurring recurringNoType = Some True \<and> b_recurringType recurringNoType = None \<and>
   fst (createTask noSpawn ''74b00000000000000000000a'' (Some una) recurringNoType office) =
     Response 404 (Message ''Assigned user not found'')"
  by code_simp

text \<open>The early exits of \<^verbatim>\<open>POST /api/tasks\<close>, once the permission check has passed.\<close>

lemma createTask_invalid:
  assumes "checkPermission ''tasks:create'' reqUser = None" and "createValidators b \<noteq> []"
  shows "createTask spawn newId reqUser b d = (Response 400 (Errors (createValidators b)), d)"
  using assms by (simp add: createTask_def)

lemma createTask_no_type:
  assumes "checkPermission ''tasks:create'' reqUser = None" and "createValidators b = []"
    and "b_isRecurring b = Some True" and "b_recurringType b = None"
  shows "snd (createTask spawn newId reqUser b d) = d"
    and "b_assignedTo b = Some a \<Longrightarrow> ObjectId_isValid a \<Longrightarrow>
         User_findById a (users d) = Some usr \<Longrightarrow>
         createTask spawn newId reqUser b d =
           (Response 400 (Message ''Recurring type is required for recurring tasks''), d)"
proof -
  obtain u where u: "reqUser = Some u"
    using assms(1) by (cases reqUser) (simp_all add: checkPermission_def)
  show "snd (createTask spawn newId reqUser b d) = d"
  proof (cases "b_assignedTo b")
    case None
    then show ?thesis
      using assms u by (simp add: createTask_def)
  next
    case (Some a)
    show ?thesis
    proof (cases "ObjectId_isValid a \<and> User_findById a (users d) \<noteq> None")
      case True
      then show ?thesis
        using assms u Some by (simp add: createTask_def truthy_def)
    next
      case False
      then show ?thesis
        using assms u Some by (cases "ObjectId_isValid a") (simp_all add: createTask_def)
    qed
  qed
  show "createTask spawn newId reqUser b d =
      (Response 400 (Message ''Recurring type is required for recurring tasks''), d)"
    if "b_assignedTo b = Some a" "ObjectId_isValid a" "User_findById a (users d) = Some usr"
    using assms u that by (simp add: createTask_def truthy_def)
qed

lemma recurringType_invalid:
  assumes "b_recurringType b = Some ty"
    and "ty \<notin> {''daily'', ''weekly'', ''monthly'', ''custom''}"
  shows "createValidators b \<noteq> []"
  using assms by (simp add: createValidators_def recurringValidators_def optionalIn_def)

text \<open>
  C3, amended. For a caller who passes the check of \<^verbatim>\<open>tasks:create\<close>,
  \<^verbatim>\<open>POST /api/tasks\<close> answers 400 whenever \<open>recurringType\<close> is present and not one of
  daily, weekly, monthly, custom; and it answers 400 with the message
  \<^verbatim>\<open>Recurring type is required for recurring tasks\<close> whenever \<open>isRecurring\<close> is true, the
  recurring type is missing, the other fields pass the validators and the assignee
  exists. In both cases, whatever the answer, the database is as it was: no task is
  created.
\<close>

theorem createTask_recurring_validation:
  assumes "checkPermission ''tasks:create'' reqUser = None"
  shows "((\<exists>ty. b_recurringType b = Some ty \<and> ty \<notin> {''daily'', ''weekly'', ''monthly'', ''custom''})
            \<longrightarrow> statusCode (fst (createTask spawn newId reqUser b d)) = 400)
       \<and> (b_isRecurring b = Some True \<and> b_recurringType b = None \<and> createValidators b = [] \<and>
            (\<exists>a usr. b_assignedTo b = Some a \<and> ObjectId_isValid a \<and>
                      User_findById a (users d) = Some usr)
            \<longrightarrow> fst (createTask spawn newId reqUser b d) =
                  Response 400 (Message ''Recurring type is required for recurring tasks''))
       \<and> ((\<exists>ty. b_recurringType b = Some ty \<and> ty \<notin> {''daily'', ''weekly'', ''monthly'', ''custom''})
            \<or> (b_isRecurring b = Some True \<and> b_recurringType b = None)
            \<longrightarrow> snd (createTask spawn newId reqUser b d) = d)"
proof -
  have a: "statusCode (fst (createTask spawn newId reqUser b d)) = 400 \<and>
           snd (createTask spawn newId reqUser b d) = d"
    if "b_recurringType b = Some ty" "ty \<notin> {''daily'', ''weekly'', ''monthly'', ''custom''}" for ty
    using createTask_invalid [OF assms recurringType_invalid [OF that]] by simp
  have b: "fst (createTask spawn newId reqUser b d) =
             Response 400 (Message ''Recurring type is required for recurring tasks'')"
    if "b_isRecurring b = Some True" "b_recurringType b = None" "createValidators b = []"
      "b_assignedTo b = Some a" "ObjectId_isValid a" "User_findById a (users d) = Some usr"
    for a usr
    using createTask_no_type(2) [OF assms that(3) that(1) that(2) that(4) that(5) that(6)]
    by simp
  have c: "snd (createTask spawn newId reqUser b d) = d"
    if "b_isRecurring b = Some True" "b_recurringType b = None"
  proof (cases "createValidators b = []")
    case True
    then show ?thesis
      using createTask_no_type(1) [OF assms True that] by simp
  next
    case False
    then show ?thesis
      using createTask_invalid [OF assms False] by simp
  qed
  from a b c show ?thesis by blast
qed

text \<open>
  The amended C3 at Una posting a standup for Uwe: once with the recurring type
  \<^verbatim>\<open>'yearly'\<close>, once with none.
\<close>

lemma checkPermission_una: "checkPermission ''tasks:create'' (Some una) = None"
  by (simp add: checkPermission_def hasPermission_def rolePermissions_get_def
      rolePermissions_def userPermissions_def una_def)

lemma standup_facts:
  "b_isRecurring standup = Some True" "b_recurringType standup = None"
  "createValidators standup = []"
  "b_assignedTo standup = Some ''64b000000000000000000004''"
  "User_findById ''64b000000000000000000004'' (users office) = Some uwe"
  "b_recurringType (standup\<lparr>b_recurringType := Some ''yearly''\<rparr>) = Some ''yearly''"
  "''yearly'' \<notin> {''daily'', ''weekly'', ''monthly'', ''custom''}"
  by (simp_all add: standup_def recurringNoType_def emptyBody_def createValidators_def
      recurringValidators_def required_def requiredDate_def requiredIn_def optionalIn_def
      optionalInt_def optionalDate_def truthy_def User_findById_def office_def
      ada_def moe_def una_def uwe_def)

theorem createTask_recurring_validation_witness:
  "checkPermission ''tasks:create'' (Some una) = None \<and>
   statusCode (fst (createTask noSpawn ''74b00000000000000000000a'' (Some una)
      (standup\<lparr>b_recurringType := Some ''yearly''\<rparr>) office)) = 400 \<and>
   snd (createTask noSpawn ''74b00000000000000000000a'' (Some una)
      (standup\<lparr>b_recurringType := Some ''yearly''\<rparr>) office) = office \<and>
   createTask noSpawn ''74b00000000000000000000a'' (Some una) standup office =
     (Response 400 (Message ''Recurring type is required for recurring tasks''), office)"
  using createTask_recurring_validation [OF checkPermission_una, of
      "standup\<lparr>b_recurringType := Some ''yearly''\<rparr>" noSpawn "''74b00000000000000000000a''" office]
    createTask_recurring_validation [OF checkPermission_una, of
      standup noSpawn "''74b00000000000000000000a''" office]
    standup_facts checkPermission_una ObjectId_isValid_examples(4)
  by (auto simp: prod_eq_iff)

section \<open>Instances of a recurring task\<close>


lemma createRecurringTaskInstance_new:
  assumes "x \<in> set (createRecurringTaskInstance nextDueDate newId template ts)" and "x \<notin> set ts"
  shows "x = recurringInstance nextDueDate newId template"
    and "recurringEndDate template = Some e \<Longrightarrow> nextDueDate template \<le> e"
  using assms
  by (auto simp: createRecurringTaskInstance_def split: option.splits if_splits)

lemma tasks_createNotification: "tasks (createNotification a m ty tid d) = tasks d"
  by (simp add: createNotification_def)

lemma tasks_updateNotifications: "tasks (updateNotifications u t b d) = tasks d"
  by (simp add: updateNotifications_def Let_def tasks_createNotification split: option.splits)

lemma createRecurringTaskInstance_cases:
  "x \<in> set (createRecurringTaskInstance nextDueDate newId template ts) \<Longrightarrow>
   x \<in> set ts \<or>
   (x = recurringInstance nextDueDate newId template \<and>
    (\<forall>e. recurringEndDate template = Some e \<longrightarrow> nextDueDate template \<le> e))"
  by (auto simp: createRecurringTaskInstance_def split: option.splits if_splits)

lemma dueDate_recurringInstance:
  "dueDate (recurringInstance nextDueDate newId template) = nextDueDate template"
  by (simp add: recurringInstance_def)

lemma createRecurringTaskInstance_bound:
  assumes "x \<in> set (createRecurringTaskInstance nextDueDate newId template ts)"
    and "x \<notin> set ts" and "recurringEndDate template = Some e"
  shows "dueDate x \<le> e"
  using createRecurringTaskInstance_cases [OF assms(1)] assms(2,3)
  by (auto simp: dueDate_recurringInstance)

lemma createRecurringTaskInstance_unbounded:
  "recurringEndDate template = None \<Longrightarrow>
   createRecurringTaskInstance nextDueDate newId template ts =
     ts @ [recurringInstance nextDueDate newId template]"
  by (simp add: createRecurringTaskInstance_def)

lemma createTask_tasks:
  "tasks (snd (createTask spawn newId (Some u) b d)) = tasks d \<or>
   tasks (snd (createTask spawn newId (Some u) b d)) = tasks d @ [newTask newId (user_id u) b] \<or>
   tasks (snd (createTask spawn newId (Some u) b d)) =
     spawn (newTask newId (user_id u) b) (tasks d @ [newTask newId (user_id u) b])"
proof (cases "checkPermission ''tasks:create'' (Some u)")
  case (Some r)
  then show ?thesis by (simp add: createTask_def)
next
  case None
  show ?thesis
  proof (cases "b_assignedTo b")
    case no: None
    then show ?thesis
      using None by (simp add: createTask_def)
  next
    case (Some a)
    then show ?thesis
      using None
      by (simp add: createTask_def Let_def tasks_createNotification)
  qed
qed

lemma set_replaceTask: "set (replaceTask t' ts) \<subseteq> insert t' (set ts)"
  by (auto simp: replaceTask_def)

lemma set_deleteChildren: "set (deleteChildren i ts) \<subseteq> set ts"
  by (auto simp: deleteChildren_def)

lemma updateTask_tasks:
  assumes "Task_findById i (tasks d) = Some t"
  shows "tasks (snd (updateTask spawn reqUser i b d)) \<in>
    {tasks d,
     replaceTask (applyBody b t) (tasks d),
     spawn (applyBody b t) (replaceTask (applyBody b t) (tasks d)),
     spawn (applyBody b t) (deleteChildren i (replaceTask (applyBody b t) (tasks d))),
     spawn (applyBody b t)
       (deleteChildren i (spawn (applyBody b t) (replaceTask (applyBody b t) (tasks d))))}"
proof (cases reqUser)
  case None
  then show ?thesis
    using assms by (simp add: updateTask_def)
next
  case (Some u)
  then show ?thesis
    using assms
    by (simp add: updateTask_def Let_def tasks_updateNotifications)
qed

lemma updateTask_instances:
  assumes found: "Task_findById i (tasks d) = Some t"
    and x: "x \<in> set (tasks (snd (updateTask (createRecurringTaskInstance nextDueDate instanceId)
                reqUser i b d)))"
    and new: "x \<notin> set (tasks d)" "x \<noteq> applyBody b t"
    and e: "recurringEndDate (applyBody b t) = Some e"
  shows "dueDate x \<le> e"
proof -
  let ?upd = "applyBody b t"
  let ?spawn = "createRecurringTaskInstance nextDueDate instanceId"
  let ?ts1 = "replaceTask ?upd (tasks d)"
  have ts1: "y \<in> set ?ts1 \<Longrightarrow> y \<in> set (tasks d) \<or> y = ?upd" for y
    using set_replaceTask [of ?upd "tasks d"] by blast
  have step: "y \<in> set (?spawn ?upd ts) \<Longrightarrow> y \<in> set ts \<or> dueDate y \<le> e" for y ts
    using createRecurringTaskInstance_bound [of y nextDueDate instanceId ?upd ts e] e by blast
  have del: "y \<in> set (deleteChildren i ts) \<Longrightarrow> y \<in> set ts" for y ts
    using set_deleteChildren [of i ts] by blast
  have "x \<in> set ?ts1 \<or> dueDate x \<le> e"
    using updateTask_tasks [OF found, of ?spawn reqUser b] x new(1) step del
    by (elim insertE emptyE) (simp_all, blast+)
  then show ?thesis
    using ts1 new by blast
qed

lemma createTask_instances:
  assumes x: "x \<in> set (tasks (snd (createTask (createRecurringTaskInstance nextDueDate instanceId)
                newId (Some u) b d)))"
    and new: "x \<notin> set (tasks d)" "x \<noteq> newTask newId (user_id u) b"
    and e: "dateOf (b_recurringEndDate b) = Some e"
  shows "dueDate x \<le> e"
proof -
  let ?t = "newTask newId (user_id u) b"
  have e': "recurringEndDate ?t = Some e"
    using e by (simp add: newTask_def)
  have step: "y \<in> set (createRecurringTaskInstance nextDueDate instanceId ?t ts) \<Longrightarrow>
      y \<in> set ts \<or> dueDate y \<le> e" for y ts
    using createRecurringTaskInstance_bound [of y nextDueDate instanceId ?t ts e] e' by blast
  from createTask_tasks [of "createRecurringTaskInstance nextDueDate instanceId" newId u b d]
  show ?thesis
    using x new step [of x "tasks d @ [?t]"] by (elim disjE) auto
qed

lemma spawn_backup:
  "createRecurringTaskInstance plusThousand ''74b000000000000000000003'' backup [report, backup] =
     [report, backup, backup2]"
  "backup2 \<notin> set [report, backup]"
  "recurringEndDate backup = Some 5000"
  "createRecurringTaskInstance plusThousand ''74b000000000000000000005''
     (backup\<lparr>dueDate := 4500\<rparr>) [report, backup] = [report, backup]"
  "recurringEndDate report = None"
  by (simp_all add: createRecurringTaskInstance_def recurringInstance_def plusThousand_def
      backup_def backup2_def report_def)


















text \<open>
  C4. An instance that \<open>createRecurringTaskInstance\<close> adds for a template with an end
  date is due no later than that date; for a template without an end date an instance is
  added whatever its due date. The same bound holds for every task that
  \<^verbatim>\<open>POST /api/tasks\<close> adds besides the template it stores, and for every task that
  \<^verbatim>\<open>PUT /api/tasks/:id\<close> adds besides the task it updates, when they call the service.
\<close>

theorem recurring_end_date_bound:
  "(\<forall>x e. x \<in> set (createRecurringTaskInstance nextDueDate instanceId template ts) \<and>
          x \<notin> set ts \<and> recurringEndDate template = Some e \<longrightarrow> dueDate x \<le> e)
   \<and> (recurringEndDate template = None \<longrightarrow>
        createRecurringTaskInstance nextDueDate instanceId template ts =
          ts @ [recurringInstance nextDueDate instanceId template])
   \<and> (\<forall>x e. x \<in> set (tasks (snd (createTask
                  (createRecurringTaskInstance nextDueDate instanceId) newId (Some u) b d))) \<and>
          x \<notin> set (tasks d) \<and> x \<noteq> newTask newId (user_id u) b \<and>
          dateOf (b_recurringEndDate b) = Some e \<longrightarrow> dueDate x \<le> e)
   \<and> (\<forall>x e t. Task_findById i (tasks d) = Some t \<and>
          x \<in> set (tasks (snd (updateTask
                  (createRecurringTaskInstance nextDueDate instanceId) reqUser i b d))) \<and>
          x \<notin> set (tasks d) \<and> x \<noteq> applyBody b t \<and>
          recurringEndDate (applyBody b t) = Some e \<longrightarrow> dueDate x \<le> e)"
  using createRecurringTaskInstance_bound [of _ nextDueDate instanceId template ts]
    createRecurringTaskInstance_unbounded [of template nextDueDate instanceId ts]
    createTask_instances [of _ nextDueDate instanceId newId u b d]
    updateTask_instances [of i d _ _ nextDueDate instanceId reqUser b]
  by blast

text \<open>
  C4 in the office: the instance of the backup, a template without an end date, the
  first instance of a daily standup Una posts, and the instance that completing the
  backup gives.
\<close>

lemma standup_created:
  "tasks (snd (createTask (createRecurringTaskInstance plusThousand ''74b000000000000000000006'')
      ''74b000000000000000000005'' (Some una) dailyStandup office)) =
     [report, backup, backup2, audit, standupTemplate, standupInstance]"
  by code_simp

lemma standup_facts2:
  "standupInstance \<notin> set (tasks office)"
  "standupInstance \<noteq> newTask ''74b000000000000000000005'' (user_id una) dailyStandup"
  "dateOf (b_recurringEndDate dailyStandup) = Some 9000"
  "dueDate standupInstance = 7000"
  by code_simp+

lemma backup_completed:
  "tasks (snd (updateTask (createRecurringTaskInstance plusThousand ''74b000000000000000000006'')
      (Some una) ''74b000000000000000000002'' complete office)) =
     [report, applyBody complete backup, audit, backup3]"
  by code_simp

lemma backup_facts2:
  "Task_findById ''74b000000000000000000002'' (tasks office) = Some backup"
  "backup3 \<notin> set (tasks office)"
  "backup3 \<noteq> applyBody complete backup"
  "recurringEndDate (applyBody complete backup) = Some 5000"
  "dueDate backup3 = 3000"
  by code_simp+

theorem recurring_end_date_bound_witness:
  "backup2 \<in> set (createRecurringTaskInstance plusThousand ''74b000000000000000000003'' backup
                    [report, backup]) \<and>
   backup2 \<notin> set [report, backup] \<and> recurringEndDate backup = Some 5000 \<and>
   dueDate backup2 \<le> 5000 \<and>
   recurringEndDate report = None \<and>
   createRecurringTaskInstance plusThousand ''74b000000000000000000005'' report [report] =
     [report, recurringInstance plusThousand ''74b000000000000000000005'' report] \<and>
   standupInstance \<in> set (tasks (snd (createTask
      (createRecurringTaskInstance plusThousand ''74b000000000000000000006'')
      ''74b000000000000000000005'' (Some una) dailyStandup office))) \<and>
   dateOf (b_recurringEndDate dailyStandup) = Some 9000 \<and> dueDate standupInstance \<le> 9000 \<and>
   backup3 \<in> set (tasks (snd (updateTask
      (createRecurringTaskInstance plusThousand ''74b000000000000000000006'')
      (Some una) ''74b000000000000000000002'' complete office))) \<and>
   recurringEndDate (applyBody complete backup) = Some 5000 \<and> dueDate backup3 \<le> 5000"
  using recurring_end_date_bound [of plusThousand "''74b000000000000000000003''" backup
      "[report, backup]"]
    recurring_end_date_bound [of plusThousand "''74b000000000000000000005''" report "[report]"]
    recurring_end_date_bound [where nextDueDate = plusThousand
      and instanceId = "''74b000000000000000000006''" and newId = "''74b000000000000000000005''"
      and u = una and b = dailyStandup and d = office]
    recurring_end_date_bound [where nextDueDate = plusThousand
      and instanceId = "''74b000000000000000000006''" and i = "''74b000000000000000000002''"
      and reqUser = "Some una" and b = complete and d = office]
    spawn_backup standup_created standup_facts2 backup_completed backup_facts2
  by simp

section \<open>Changing and deleting users\<close>

lemma User_findById_id: "User_findById i us = Some target \<Longrightarrow> user_id target = i"
  by (auto simp: User_findById_def find_Some_iff)

lemma checkPermission_known_role:
  assumes "role u \<in> {Some ''admin'', Some ''manager'', Some ''user''}"
  shows "checkPermission p (Some u) =
     (if hasPermission (Some u) p = Inr True then None
      else Some (Response 403 (Message ''You do not have permission to perform this action'')))"
  using assms
  by (auto simp: checkPermission_def hasPermission_def rolePermissions_get_def
      rolePermissions_def)

lemma admin_only:
  assumes "role u \<in> {Some ''admin'', Some ''manager'', Some ''user''}"
  shows "hasPermission (Some u) ''users:manage-roles'' = Inr (role u = Some ''admin'')"
    and "hasPermission (Some u) ''users:delete'' = Inr (role u = Some ''admin'')"
  using assms
  by (auto simp: hasPermission_def rolePermissions_get_def rolePermissions_def
      adminPermissions_def managerPermissions_def userPermissions_def)

lemma updateUserRole_self:
  "snd (updateUserRole (Some u) (user_id u) newRole d) = d"
proof (cases "checkPermission ''users:manage-roles'' (Some u)")
  case (Some r)
  then show ?thesis by (simp add: updateUserRole_def)
next
  case None
  show ?thesis
  proof (cases "User_findById (user_id u) (users d)")
    case None
    then show ?thesis
      using \<open>checkPermission ''users:manage-roles'' (Some u) = None\<close>
      by (simp add: updateUserRole_def)
  next
    case (Some target)
    then show ?thesis
      using \<open>checkPermission ''users:manage-roles'' (Some u) = None\<close> User_findById_id [OF Some]
      by (simp add: updateUserRole_def)
  qed
qed

lemma deleteUser_self:
  "snd (deleteUser (Some u) (user_id u) d) = d"
proof (cases "checkPermission ''users:delete'' (Some u)")
  case (Some r)
  then show ?thesis by (simp add: deleteUser_def)
next
  case None
  show ?thesis
  proof (cases "User_findById (user_id u) (users d)")
    case None
    then show ?thesis
      using \<open>checkPermission ''users:delete'' (Some u) = None\<close>
      by (simp add: deleteUser_def)
  next
    case (Some target)
    then show ?thesis
      using \<open>checkPermission ''users:delete'' (Some u) = None\<close> User_findById_id [OF Some]
      by (simp add: deleteUser_def)
  qed
qed

lemma self_status:
  assumes known: "role u \<in> {Some ''admin'', Some ''manager'', Some ''user''}"
    and valid: "ObjectId_isValid (user_id u)"
    and stored: "User_findById (user_id u) (users d) = Some target"
  shows "statusCode (fst (deleteUser (Some u) (user_id u) d)) = 403"
    and "newRole \<in> {Some ''admin'', Some ''manager'', Some ''user''} \<or> role u \<noteq> Some ''admin''
         \<Longrightarrow> statusCode (fst (updateUserRole (Some u) (user_id u) newRole d)) = 403"
    and "newRole \<notin> {Some ''admin'', Some ''manager'', Some ''user''} \<Longrightarrow> role u = Some ''admin''
         \<Longrightarrow> statusCode (fst (updateUserRole (Some u) (user_id u) newRole d)) = 400"
proof -
  have same: "user_id target = user_id u"
    using User_findById_id [OF stored] .
  show "statusCode (fst (deleteUser (Some u) (user_id u) d)) = 403"
    using valid stored same
    by (simp add: deleteUser_def checkPermission_known_role [OF known] admin_only [OF known])
  have ok: "requiredIn newRole [''admin'', ''manager'', ''user''] ''Invalid role'' = [] \<longleftrightarrow>
      newRole \<in> {Some ''admin'', Some ''manager'', Some ''user''}"
    by (cases newRole) (auto simp: requiredIn_def)
  show "statusCode (fst (updateUserRole (Some u) (user_id u) newRole d)) = 403"
    if "newRole \<in> {Some ''admin'', Some ''manager'', Some ''user''} \<or> role u \<noteq> Some ''admin''"
  proof (cases "role u = Some ''admin''")
    case True
    with that have "requiredIn newRole [''admin'', ''manager'', ''user''] ''Invalid role'' = []"
      using ok by blast
    then show ?thesis
      using True valid stored same
      by (simp add: updateUserRole_def checkPermission_known_role [OF known]
          admin_only [OF known])
  next
    case False
    then show ?thesis
      by (simp add: updateUserRole_def checkPermission_known_role [OF known]
          admin_only [OF known])
  qed
  show "statusCode (fst (updateUserRole (Some u) (user_id u) newRole d)) = 400"
    if "newRole \<notin> {Some ''admin'', Some ''manager'', Some ''user''}" "role u = Some ''admin''"
  proof -
    have "requiredIn newRole [''admin'', ''manager'', ''user''] ''Invalid role'' \<noteq> []"
      using that(1) ok by blast
    then show ?thesis
      using that(2)
      by (simp add: updateUserRole_def checkPermission_known_role [OF known]
          admin_only [OF known])
  qed
qed

text \<open>
  C10, as the claim has it, fails: \<^verbatim>\<open>PUT /api/users/:id/role\<close> does not always answer
  403 to a requester who names their own id. The validators run before the comparison
  of the ids, so Ada, an admin who sends a role that does not exist, gets 400.
\<close>

theorem updateUserRole_invalid_role_counterexample:
  "updateUserRole (Some ada) (user_id ada) (Some ''superuser'') office =
     (Response 400 (Errors [''Invalid role'']), office)"
  by code_simp

text \<open>
  C10, amended. Whenever the id of the request is the requester's own,
  \<^verbatim>\<open>PUT /api/users/:id/role\<close> and \<^verbatim>\<open>DELETE /api/users/:id\<close> leave the database as it was,
  whatever they answer. For a requester who is stored under a valid id with one of the
  three roles, \<^verbatim>\<open>DELETE\<close> answers 403, and \<^verbatim>\<open>PUT\<close> answers 403 unless the requester is an
  admin and the new role is not one of the three: then it answers 400.
\<close>

theorem user_self_protection:
  "snd (updateUserRole (Some u) (user_id u) newRole d) = d
   \<and> snd (deleteUser (Some u) (user_id u) d) = d
   \<and> (role u \<in> {Some ''admin'', Some ''manager'', Some ''user''} \<and>
       ObjectId_isValid (user_id u) \<and> User_findById (user_id u) (users d) \<noteq> None \<longrightarrow>
         statusCode (fst (deleteUser (Some u) (user_id u) d)) = 403 \<and>
         (newRole \<in> {Some ''admin'', Some ''manager'', Some ''user''} \<or> role u \<noteq> Some ''admin''
            \<longrightarrow> statusCode (fst (updateUserRole (Some u) (user_id u) newRole d)) = 403) \<and>
         (newRole \<notin> {Some ''admin'', Some ''manager'', Some ''user''} \<and> role u = Some ''admin''
            \<longrightarrow> statusCode (fst (updateUserRole (Some u) (user_id u) newRole d)) = 400))"
proof -
  have "statusCode (fst (deleteUser (Some u) (user_id u) d)) = 403 \<and>
         (newRole \<in> {Some ''admin'', Some ''manager'', Some ''user''} \<or> role u \<noteq> Some ''admin''
            \<longrightarrow> statusCode (fst (updateUserRole (Some u) (user_id u) newRole d)) = 403) \<and>
         (newRole \<notin> {Some ''admin'', Some ''manager'', Some ''user''} \<and> role u = Some ''admin''
            \<longrightarrow> statusCode (fst (updateUserRole (Some u) (user_id u) newRole d)) = 400)"
    if known: "role u \<in> {Some ''admin'', Some ''manager'', Some ''user''}"
      and valid: "ObjectId_isValid (user_id u)"
      and stored: "User_findById (user_id u) (users d) \<noteq> None"
  proof -
    from stored obtain target where target: "User_findById (user_id u) (users d) = Some target"
      by blast
    show ?thesis
      using self_status(1) [OF known valid target]
        self_status(2) [OF known valid target, of newRole]
        self_status(3) [OF known valid target, of newRole]
      by blast
  qed
  then show ?thesis
    using updateUserRole_self [of u newRole d] deleteUser_self [of u d] by blast
qed

text \<open>The amended C10 at Ada, who tries to demote and to delete herself.\<close>

lemma ada_facts:
  "role ada \<in> {Some ''admin'', Some ''manager'', Some ''user''}"
  "ObjectId_isValid (user_id ada)"
  "User_findById (user_id ada) (users office) \<noteq> None"
  "Some ''user'' \<in> {Some ''admin'', Some ''manager'', Some ''user''}"
  "role ada = Some ''admin''"
  by (simp_all add: ada_def ObjectId_isValid_examples User_findById_def office_def)

theorem user_self_protection_witness:
  "role ada = Some ''admin'' \<and>
   snd (updateUserRole (Some ada) (user_id ada) (Some ''user'') office) = office \<and>
   snd (deleteUser (Some ada) (user_id ada) office) = office \<and>
   statusCode (fst (deleteUser (Some ada) (user_id ada) office)) = 403 \<and>
   statusCode (fst (updateUserRole (Some ada) (user_id ada) (Some ''user'') office)) = 403"
  using user_self_protection [of ada "Some ''user''" office] ada_facts
  by blast

end
